theory Spec2Isabelle
  imports Main "HOL-Library.AList"
begin

section \<open>Values, errors and the effects of a call\<close>

text \<open>
  The secrets and the Cloudflare tokens are JSON documents that the Python code handles
  as nested dicts. A dict is an association list: Python keeps the insertion order of
  the keys, assigning to a key that is there keeps its place, and a new key goes to the
  end, which is what \<open>AList.update\<close> does. JSON numbers are the integers.
\<close>

datatype json =
    JNull
  | JBool bool
  | JInt int
  | JStr string
  | JArr "json list"
  | JObj "(string \<times> json) list"

text \<open>The messages of the \<open>ValueError\<close>s that the code raises or that its libraries raise.\<close>

datatype reason =
    NotEnabledForRotation
  | NoStageForRotation
  | NotSetAsPending
  | InvalidStep
  | InvalidSecretType
  | InvalidSecretTokenType
  | TestingApiTokenFailed
  | NotJSON
  | NotISO

text \<open>
  The exceptions. \<open>ResourceNotFoundException\<close> is the one of the Secrets Manager client,
  \<open>CloudFlareAPIError\<close> carries the error code that \<open>int(e)\<close> reads, and
  \<open>OtherError\<close> is any other exception a collaborator raises.
\<close>

datatype error =
    KeyError string
  | TypeError
  | AttributeError
  | ValueError reason
  | AssertionError
  | UnboundLocalError string
  | OverflowError
  | ParamValidationError
  | ResourceNotFoundException
  | CloudFlareAPIError int
  | OtherError string

text \<open>
  A datetime is naive or carries a zone. Either way it is held by its microseconds since
  the epoch (for one with a zone, those of the instant in UTC).
\<close>

datatype datetime = Naive int | Aware int

text \<open>A secret string on the wire: JSON text, held as the value it parses to, or other text.\<close>

datatype wire = Json json | NotJson string

record secret_value =
  SecretString :: "wire option"

record metadata =
  RotationEnabled :: "bool option"
  VersionIdsToStages :: "(string \<times> string list) list option"

text \<open>Every call that leaves the process, in the order the code makes them.\<close>

datatype call =
    DescribeSecret string
  | GetSecretValue string "string option" string
  | PutSecretValue string string wire "string list"
  | UpdateSecretVersionStage string string string "string option"
  | TokensGet json
  | TokensPost json
  | TokensPut json json
  | TokensValuePut json
  | TokensVerify json
  | ServiceKeysOrigintunnelGet
  | CertificatesPost json
  | GeneratePrivateKey
  | SignCsr string

text \<open>
  The collaborators, over a state \<open>'w\<close> of the outside world that the code never sees:
  the Secrets Manager client of boto3, the CloudFlare client, the verify endpoint, the
  key generation of the cryptography library, the clock, and the pure library functions
  (\<open>isoparse\<close>, \<open>strftime\<close> with the format of \<open>date_fmt\<close>, \<open>str\<close>, base64 and
  \<open>textwrap.wrap\<close> at width 64). A read returns a result; a write returns a result and
  the next state, also when it fails. The clock gives the naive datetime of \<open>utcnow\<close>, in
  microseconds since the epoch.
\<close>

record 'w env =
  describe_secret :: "string \<Rightarrow> 'w \<Rightarrow> error + metadata"
  get_secret_value :: "string \<Rightarrow> string option \<Rightarrow> string \<Rightarrow> 'w \<Rightarrow> error + secret_value"
  put_secret_value :: "string \<Rightarrow> string \<Rightarrow> wire \<Rightarrow> string list \<Rightarrow> 'w \<Rightarrow> (error + unit) \<times> 'w"
  update_secret_version_stage ::
    "string \<Rightarrow> string \<Rightarrow> string \<Rightarrow> string option \<Rightarrow> 'w \<Rightarrow> (error + unit) \<times> 'w"
  tokens_get :: "json \<Rightarrow> 'w \<Rightarrow> error + json"
  tokens_post :: "json \<Rightarrow> 'w \<Rightarrow> (error + json) \<times> 'w"
  tokens_put :: "json \<Rightarrow> json \<Rightarrow> 'w \<Rightarrow> (error + json) \<times> 'w"
  tokens_value_put :: "json \<Rightarrow> 'w \<Rightarrow> (error + json) \<times> 'w"
  tokens_verify :: "json \<Rightarrow> 'w \<Rightarrow> error + json"
  service_keys_origintunnel_get :: "'w \<Rightarrow> (error + json) \<times> 'w"
  certificates_post :: "json \<Rightarrow> 'w \<Rightarrow> (error + json) \<times> 'w"
  generate_private_key :: "'w \<Rightarrow> (error + string \<times> string) \<times> 'w"
  sign_csr :: "string \<Rightarrow> 'w \<Rightarrow> (error + string) \<times> 'w"
  utcnow :: "'w \<Rightarrow> int"
  isoparse :: "json \<Rightarrow> error + datetime"
  strftime :: "int \<Rightarrow> string"
  py_str :: "json \<Rightarrow> string"
  b64encode :: "string \<Rightarrow> string"
  wrap64 :: "string \<Rightarrow> string list"

text \<open>
  What a run of the code can change: the outside world, \<open>os.environ\<close>, and the record
  of the calls made so far.
\<close>

record 'w world =
  ext :: 'w
  environ :: "string \<rightharpoonup> string"
  log :: "call list"

type_synonym ('a, 'w) prog = "'w world \<Rightarrow> (error + 'a) \<times> 'w world"

definition ret :: "'a \<Rightarrow> ('a, 'w) prog" where
  "ret x = (\<lambda>w. (Inr x, w))"

definition raise :: "error \<Rightarrow> ('a, 'w) prog" where
  "raise e = (\<lambda>w. (Inl e, w))"

definition lift :: "error + 'a \<Rightarrow> ('a, 'w) prog" where
  "lift r = (\<lambda>w. (r, w))"

definition bind :: "('a, 'w) prog \<Rightarrow> ('a \<Rightarrow> ('b, 'w) prog) \<Rightarrow> ('b, 'w) prog" where
  "bind m f = (\<lambda>w. case m w of (Inl e, w') \<Rightarrow> (Inl e, w') | (Inr x, w') \<Rightarrow> f x w')"

text \<open>\<open>try: m except Exception as e: h e\<close>; a handler re-raises what its clause does not match.\<close>

definition catch :: "('a, 'w) prog \<Rightarrow> (error \<Rightarrow> ('a, 'w) prog) \<Rightarrow> ('a, 'w) prog" where
  "catch m h = (\<lambda>w. case m w of (Inl e, w') \<Rightarrow> h e w' | (Inr x, w') \<Rightarrow> (Inr x, w'))"

definition gets :: "('w \<Rightarrow> 'a) \<Rightarrow> ('a, 'w) prog" where
  "gets f = (\<lambda>w. (Inr (f (ext w)), w))"

definition query :: "call \<Rightarrow> ('w \<Rightarrow> error + 'a) \<Rightarrow> ('a, 'w) prog" where
  "query c f = (\<lambda>w. (f (ext w), w\<lparr>log := log w @ [c]\<rparr>))"

definition invoke :: "call \<Rightarrow> ('w \<Rightarrow> (error + 'a) \<times> 'w) \<Rightarrow> ('a, 'w) prog" where
  "invoke c f = (\<lambda>w. case f (ext w) of (r, x) \<Rightarrow> (r, w\<lparr>ext := x, log := log w @ [c]\<rparr>))"

section \<open>Python's dict and string operations on JSON values\<close>

fun getitem :: "json \<Rightarrow> string \<Rightarrow> error + json" where
  "getitem (JObj kvs) k = (case map_of kvs k of Some v \<Rightarrow> Inr v | None \<Rightarrow> Inl (KeyError k))"
| "getitem _ k = Inl TypeError"

fun setitem :: "json \<Rightarrow> string \<Rightarrow> json \<Rightarrow> error + json" where
  "setitem (JObj kvs) k v = Inr (JObj (AList.update k v kvs))"
| "setitem _ k v = Inl TypeError"

fun delitem :: "json \<Rightarrow> string \<Rightarrow> error + json" where
  "delitem (JObj kvs) k =
     (if k \<in> set (map fst kvs) then Inr (JObj (AList.delete k kvs)) else Inl (KeyError k))"
| "delitem _ k = Inl TypeError"

text \<open>\<open>d.get(k, default)\<close>: only a dict has the method.\<close>

fun dict_get :: "json \<Rightarrow> string \<Rightarrow> json \<Rightarrow> error + json" where
  "dict_get (JObj kvs) k d = Inr (case map_of kvs k of Some v \<Rightarrow> v | None \<Rightarrow> d)"
| "dict_get _ k d = Inl AttributeError"

fun substring :: "string \<Rightarrow> string \<Rightarrow> bool" where
  "substring k [] = (k = [])"
| "substring k (c # s) = (take (length k) (c # s) = k \<or> substring k s)"

text \<open>\<open>k in x\<close> for a string \<open>k\<close>: a key of a dict, an element of a list, a part of a string.\<close>

fun contains :: "string \<Rightarrow> json \<Rightarrow> error + bool" where
  "contains k (JObj kvs) = Inr (k \<in> set (map fst kvs))"
| "contains k (JArr xs) = Inr (JStr k \<in> set xs)"
| "contains k (JStr s) = Inr (substring k s)"
| "contains k _ = Inl TypeError"

text \<open>What a \<open>for\<close> loop over the value visits.\<close>

fun iter_json :: "json \<Rightarrow> error + json list" where
  "iter_json (JArr xs) = Inr xs"
| "iter_json (JObj kvs) = Inr (map (\<lambda>kv. JStr (fst kv)) kvs)"
| "iter_json (JStr s) = Inr (map (\<lambda>c. JStr [c]) s)"
| "iter_json _ = Inl TypeError"

fun truthy :: "json \<Rightarrow> bool" where
  "truthy JNull = False"
| "truthy (JBool b) = b"
| "truthy (JInt n) = (n \<noteq> 0)"
| "truthy (JStr s) = (s \<noteq> [])"
| "truthy (JArr xs) = (xs \<noteq> [])"
| "truthy (JObj kvs) = (kvs \<noteq> [])"

fun traverse :: "('a \<Rightarrow> error + 'b) \<Rightarrow> 'a list \<Rightarrow> error + 'b list" where
  "traverse f [] = Inr []"
| "traverse f (x # xs) =
     (case f x of
        Inl e \<Rightarrow> Inl e
      | Inr y \<Rightarrow> (case traverse f xs of Inl e \<Rightarrow> Inl e | Inr ys \<Rightarrow> Inr (y # ys)))"

definition json_dumps :: "json \<Rightarrow> wire" where
  "json_dumps j = Json j"

fun json_loads :: "wire \<Rightarrow> error + json" where
  "json_loads (Json j) = Inr j"
| "json_loads (NotJson s) = Inl (ValueError NotJSON)"

text \<open>
  The characters that \<open>str.strip\<close> removes, among the code points below 256.
\<close>

definition is_space :: "char \<Rightarrow> bool" where
  "is_space c = (c \<in> set [CHR '' '', CHR 0x09, CHR 0x0A, CHR 0x0B, CHR 0x0C, CHR 0x0D,
     CHR 0x1C, CHR 0x1D, CHR 0x1E, CHR 0x1F, CHR 0x85, CHR 0xA0])"

definition strip :: "string \<Rightarrow> string" where
  "strip s = rev (dropWhile is_space (rev (dropWhile is_space s)))"

fun str_strip :: "json \<Rightarrow> error + string" where
  "str_strip (JStr s) = Inr (strip s)"
| "str_strip _ = Inl AttributeError"

section \<open>Datetimes\<close>

text \<open>
  A datetime lies between year 1 and year 9999 and a timedelta within 999999999 days;
  arithmetic that leaves the range raises \<open>OverflowError\<close>.
\<close>

definition datetime_min :: int where
  "datetime_min = - 62135596800000000"

definition datetime_max :: int where
  "datetime_max = 253402300799999999"

definition datetime_add :: "int \<Rightarrow> int \<Rightarrow> error + int" where
  "datetime_add d delta =
     (if datetime_min \<le> d + delta \<and> d + delta \<le> datetime_max then Inr (d + delta)
      else Inl OverflowError)"

text \<open>\<open>valid_days > 0\<close> and \<open>timedelta(days=valid_days)\<close>; a bool is an int in Python.\<close>

fun gt_zero :: "json \<Rightarrow> error + bool" where
  "gt_zero (JInt n) = Inr (n > 0)"
| "gt_zero (JBool b) = Inr b"
| "gt_zero _ = Inl TypeError"

fun timedelta_days :: "json \<Rightarrow> error + int" where
  "timedelta_days (JInt n) =
     (if \<bar>n\<bar> \<le> 999999999 then Inr (n * 86400000000) else Inl OverflowError)"
| "timedelta_days (JBool b) = Inr (if b then 86400000000 else 0)"
| "timedelta_days _ = Inl TypeError"

text \<open>
  \<open>expires_date - issued_date\<close>: the difference of two naive datetimes or of two with a
  zone is a timedelta; one of each raises \<open>TypeError\<close>.
\<close>

fun datetime_sub :: "datetime \<Rightarrow> datetime \<Rightarrow> error + int" where
  "datetime_sub (Naive a) (Naive b) = Inr (a - b)"
| "datetime_sub (Aware a) (Aware b) = Inr (a - b)"
| "datetime_sub _ _ = Inl TypeError"

section \<open>cf.py: the calls to Cloudflare\<close>

definition date_fmt :: "'w env \<Rightarrow> int \<Rightarrow> json" where
  "date_fmt env d = JStr (strftime env d)"

definition roll_api_token :: "'w env \<Rightarrow> json \<Rightarrow> (json, 'w) prog" where
  "roll_api_token env token_id = invoke (TokensValuePut token_id) (tokens_value_put env token_id)"

definition get_api_token :: "'w env \<Rightarrow> json \<Rightarrow> (json, 'w) prog" where
  "get_api_token env token_id = query (TokensGet token_id) (tokens_get env token_id)"

text \<open>
  The loops over the policies. \<open>create_api_token\<close> deletes the \<open>id\<close> of a policy that has
  one, \<open>clone_api_token\<close> deletes it without looking. The deletion is in place, so a list of
  policies is sent without the ids; any other iterable is left as it was.
\<close>

definition del_id_if_present :: "json \<Rightarrow> error + json" where
  "del_id_if_present policy =
     (case contains ''id'' policy of
        Inl e \<Rightarrow> Inl e
      | Inr b \<Rightarrow> if b then delitem policy ''id'' else Inr policy)"

definition del_id :: "json \<Rightarrow> error + json" where
  "del_id policy = delitem policy ''id''"

definition for_each_policy :: "(json \<Rightarrow> error + json) \<Rightarrow> json \<Rightarrow> error + json" where
  "for_each_policy body policies =
     (case iter_json policies of
        Inl e \<Rightarrow> Inl e
      | Inr items \<Rightarrow>
          (case traverse body items of
             Inl e \<Rightarrow> Inl e
           | Inr items' \<Rightarrow> Inr (case policies of JArr _ \<Rightarrow> JArr items' | _ \<Rightarrow> policies)))"

definition cf_create_api_token :: "'w env \<Rightarrow> json \<Rightarrow> json \<Rightarrow> json \<Rightarrow> (json, 'w) prog" where
  "cf_create_api_token env name policies valid_days =
     bind (gets (utcnow env)) (\<lambda>now.
     bind (lift (for_each_policy del_id_if_present policies)) (\<lambda>policies'.
     bind (lift (gt_zero valid_days)) (\<lambda>positive.
     bind (if positive
           then bind (lift (timedelta_days valid_days)) (\<lambda>delta.
                bind (lift (datetime_add now delta)) (\<lambda>d.
                ret [(''expires_on'', date_fmt env d)]))
           else ret []) (\<lambda>expires_on.
     invoke
       (TokensPost (JObj ([(''name'', name), (''not_before'', date_fmt env now),
                           (''policies'', policies')] @ expires_on)))
       (tokens_post env (JObj ([(''name'', name), (''not_before'', date_fmt env now),
                           (''policies'', policies')] @ expires_on)))))))"

text \<open>
  The validity window of \<open>clone_api_token\<close> and \<open>renew_api_token\<close>: \<open>issued_date\<close> and
  \<open>expires_date\<close> are bound only under \<open>if "expires_on" in existing_token\<close>, and the next
  statement reads \<open>expires_date\<close> first.
\<close>

definition validity_window :: "'w env \<Rightarrow> json \<Rightarrow> error + int" where
  "validity_window env existing_token =
     (case contains ''expires_on'' existing_token of
        Inl e \<Rightarrow> Inl e
      | Inr False \<Rightarrow> Inl (UnboundLocalError ''expires_date'')
      | Inr True \<Rightarrow>
          (case getitem existing_token ''issued_on'' of
             Inl e \<Rightarrow> Inl e
           | Inr issued_on \<Rightarrow>
               (case isoparse env issued_on of
                  Inl e \<Rightarrow> Inl e
                | Inr issued_date \<Rightarrow>
                    (case getitem existing_token ''expires_on'' of
                       Inl e \<Rightarrow> Inl e
                     | Inr expires_on \<Rightarrow>
                         (case isoparse env expires_on of
                            Inl e \<Rightarrow> Inl e
                          | Inr expires_date \<Rightarrow> datetime_sub expires_date issued_date)))))"

definition clone_api_token :: "'w env \<Rightarrow> json \<Rightarrow> (json, 'w) prog" where
  "clone_api_token env token_id =
     bind (query (TokensGet token_id) (tokens_get env token_id)) (\<lambda>existing_token.
     bind (gets (utcnow env)) (\<lambda>now.
     bind (lift (getitem existing_token ''name'')) (\<lambda>name.
     bind (lift (getitem existing_token ''policies'')) (\<lambda>policies.
     bind (lift (dict_get existing_token ''condition'' (JObj []))) (\<lambda>condition.
     bind (lift (for_each_policy del_id policies)) (\<lambda>policies'.
     bind (lift (validity_window env existing_token)) (\<lambda>window.
     bind (lift (datetime_add now window)) (\<lambda>d.
     invoke
       (TokensPost (JObj [(''name'', name), (''not_before'', date_fmt env now),
                          (''policies'', policies'), (''condition'', condition),
                          (''expires_on'', date_fmt env d)]))
       (tokens_post env (JObj [(''name'', name), (''not_before'', date_fmt env now),
                          (''policies'', policies'), (''condition'', condition),
                          (''expires_on'', date_fmt env d)]))))))))))"

definition renew_api_token :: "'w env \<Rightarrow> json \<Rightarrow> (json, 'w) prog" where
  "renew_api_token env token_id =
     bind (gets (utcnow env)) (\<lambda>now.
     bind (query (TokensGet token_id) (tokens_get env token_id)) (\<lambda>existing_token.
     bind (lift (setitem existing_token ''not_before'' (date_fmt env now))) (\<lambda>t1.
     bind (lift (setitem t1 ''status'' (JStr ''active''))) (\<lambda>t2.
     bind (lift (validity_window env t2)) (\<lambda>window.
     bind (lift (datetime_add now window)) (\<lambda>d.
     bind (lift (setitem t2 ''expires_on'' (date_fmt env d))) (\<lambda>t3.
     bind (invoke (TokensPut token_id t3) (tokens_put env token_id t3)) (\<lambda>_.
     roll_api_token env token_id))))))))"

definition token_exists :: "'w env \<Rightarrow> json \<Rightarrow> (bool, 'w) prog" where
  "token_exists env token_id =
     catch (bind (query (TokensGet token_id) (tokens_get env token_id)) (\<lambda>_. ret True))
       (\<lambda>e. case e of
               CloudFlareAPIError code \<Rightarrow> if code = 1003 then ret False else raise e
             | _ \<Rightarrow> raise e)"

definition is_token_valid :: "'w env \<Rightarrow> json \<Rightarrow> (bool, 'w) prog" where
  "is_token_valid env token_value =
     bind (query (TokensVerify token_value) (tokens_verify env token_value)) (\<lambda>response.
     bind (lift (getitem response ''success'')) (\<lambda>success.
     if truthy success
     then bind (lift (getitem response ''result'')) (\<lambda>result.
          bind (lift (getitem result ''status'')) (\<lambda>status.
          ret (status = JStr ''active'')))
     else ret False))"

definition create_origintunnel_service_key :: "'w env \<Rightarrow> (json, 'w) prog" where
  "create_origintunnel_service_key env =
     bind (invoke ServiceKeysOrigintunnelGet (service_keys_origintunnel_get env)) (\<lambda>r.
     lift (getitem r ''service_key''))"

definition create_private_key :: "'w env \<Rightarrow> (string \<times> string, 'w) prog" where
  "create_private_key env = invoke GeneratePrivateKey (generate_private_key env)"

definition create_origin_certificate :: "'w env \<Rightarrow> string \<Rightarrow> json \<Rightarrow> json \<Rightarrow> (string, 'w) prog" where
  "create_origin_certificate env private_key hostname valid_days =
     bind (invoke (SignCsr private_key) (sign_csr env private_key)) (\<lambda>csr_pem.
     bind (invoke
             (CertificatesPost (JObj [(''hostnames'', JArr [hostname]),
                (''requested_validity'', valid_days), (''request_type'', JStr ''origin-ecc''),
                (''csr'', JStr csr_pem)]))
             (certificates_post env (JObj [(''hostnames'', JArr [hostname]),
                (''requested_validity'', valid_days), (''request_type'', JStr ''origin-ecc''),
                (''csr'', JStr csr_pem)]))) (\<lambda>resp.
     bind (lift (getitem resp ''certificate'')) (\<lambda>certificate.
     lift (str_strip certificate))))"

definition newline :: string where
  "newline = [CHR 0x0A]"

fun join_lines :: "string list \<Rightarrow> string" where
  "join_lines [] = []"
| "join_lines [l] = l"
| "join_lines (l # ls) = l @ newline @ join_lines ls"

definition format_argo_tunnel_token :: "'w env \<Rightarrow> json \<Rightarrow> json \<Rightarrow> string \<Rightarrow> string \<Rightarrow> string" where
  "format_argo_tunnel_token env zone_id tunnel_service_key private_pem cert_pem =
     private_pem @ newline @ cert_pem @ newline
     @ ''-----BEGIN ARGO TUNNEL TOKEN-----'' @ newline
     @ strip (join_lines (wrap64 env (b64encode env
          (py_str env zone_id @ newline @ py_str env tunnel_service_key)))) @ newline
     @ ''-----END ARGO TUNNEL TOKEN-----''"

definition create_argo_tunnel_token ::
  "'w env \<Rightarrow> json \<Rightarrow> json \<Rightarrow> json \<Rightarrow> json \<Rightarrow> (string, 'w) prog" where
  "create_argo_tunnel_token env zone_id tunnel_service_key hostname valid_days =
     bind (create_private_key env) (\<lambda>(private_key, private_pem).
     bind (create_origin_certificate env private_key hostname valid_days) (\<lambda>cert_pem.
     ret (format_argo_tunnel_token env zone_id tunnel_service_key private_pem cert_pem)))"

section \<open>rotate.py: the rotation handler\<close>

definition getenv :: "'w world \<Rightarrow> string \<Rightarrow> string" where
  "getenv w k = (case environ w k of None \<Rightarrow> [] | Some v \<Rightarrow> v)"

definition assert_env :: "json \<Rightarrow> (unit, 'w) prog" where
  "assert_env secret_type = (\<lambda>w.
     if secret_type = JStr ''apiToken'' then
       (if \<not> (length (getenv w ''CF_API_KEY'') > 0 \<and> length (getenv w ''CF_API_EMAIL'') > 0)
        then (if length (getenv w ''CF_API_TOKEN'') > 0
              then (Inr (), w\<lparr>environ := (environ w)(''CF_API_KEY'' \<mapsto> getenv w ''CF_API_TOKEN'')\<rparr>)
              else (Inl AssertionError, w))
        else (Inr (), w))
     else if secret_type = JStr ''tunnelServiceKey'' then
       (if length (getenv w ''CF_API_KEY'') > 0
        then (if length (getenv w ''CF_API_EMAIL'') > 0 then (Inr (), w)
              else (Inl AssertionError, w))
        else (Inl AssertionError, w))
     else if secret_type = JStr ''argoTunnelToken'' then
       (if length (getenv w ''CF_API_CERTKEY'') > 0 then (Inr (), w)
        else (Inl AssertionError, w))
     else (Inl (ValueError InvalidSecretTokenType), w))"

definition get_secret_dict :: "'w env \<Rightarrow> string \<Rightarrow> string \<Rightarrow> string option \<Rightarrow> (json, 'w) prog" where
  "get_secret_dict env arn stage token =
     bind (if token \<noteq> None \<and> token \<noteq> Some []
           then query (GetSecretValue arn token stage) (get_secret_value env arn token stage)
           else query (GetSecretValue arn None stage) (get_secret_value env arn None stage))
       (\<lambda>secret.
     bind (lift (case SecretString secret of
                   None \<Rightarrow> Inl (KeyError ''SecretString'')
                 | Some plaintext \<Rightarrow> Inr plaintext)) (\<lambda>plaintext.
     lift (json_loads plaintext)))"

text \<open>\<open>d["Attributes"][k]\<close> and \<open>d["Attributes"][k] = v\<close>.\<close>

definition get_attribute :: "json \<Rightarrow> string \<Rightarrow> error + json" where
  "get_attribute d k =
     (case getitem d ''Attributes'' of Inl e \<Rightarrow> Inl e | Inr attributes \<Rightarrow> getitem attributes k)"

definition set_attribute :: "json \<Rightarrow> string \<Rightarrow> json \<Rightarrow> error + json" where
  "set_attribute d k v =
     (case getitem d ''Attributes'' of
        Inl e \<Rightarrow> Inl e
      | Inr attributes \<Rightarrow>
          (case setitem attributes k v of
             Inl e \<Rightarrow> Inl e
           | Inr attributes' \<Rightarrow> setitem d ''Attributes'' attributes'))"

text \<open>
  \<open>new_value\<close> is a deep copy taken before the call to Cloudflare, so the ids that the
  call deletes from the policies of \<open>secret_value\<close> stay in \<open>new_value\<close>.
\<close>

definition create_api_token :: "'w env \<Rightarrow> json \<Rightarrow> (json, 'w) prog" where
  "create_api_token env secret_value =
     bind (lift (get_attribute secret_value ''Name'')) (\<lambda>name.
     bind (lift (get_attribute secret_value ''Policies'')) (\<lambda>policies.
     bind (lift (get_attribute secret_value ''ValidDays'')) (\<lambda>valid_days.
     bind (cf_create_api_token env name policies valid_days) (\<lambda>new_token.
     bind (lift (getitem new_token ''value'')) (\<lambda>value.
     bind (lift (set_attribute secret_value ''TokenValue'' value)) (\<lambda>v1.
     bind (lift (getitem new_token ''id'')) (\<lambda>new_id.
     lift (set_attribute v1 ''TokenId'' new_id))))))))"

definition rotate_between_api_tokens :: "'w env \<Rightarrow> json \<Rightarrow> (json, 'w) prog" where
  "rotate_between_api_tokens env secret_value =
     bind (lift (get_attribute secret_value ''TokenId'')) (\<lambda>cf_token_id.
     bind (lift (getitem secret_value ''Attributes'')) (\<lambda>attributes.
     bind (lift (contains ''OtherTokenId'' attributes)) (\<lambda>has_other.
     bind (if has_other
           then bind (lift (get_attribute secret_value ''OtherTokenId'')) (\<lambda>other.
                token_exists env other)
           else ret False) (\<lambda>other_exists.
     if other_exists
     then bind (lift (get_attribute secret_value ''OtherTokenId'')) (\<lambda>cf_other_token_id.
          bind (renew_api_token env cf_other_token_id) (\<lambda>value.
          bind (lift (set_attribute secret_value ''OtherTokenId'' cf_token_id)) (\<lambda>v1.
          bind (lift (set_attribute v1 ''TokenValue'' value)) (\<lambda>v2.
          lift (set_attribute v2 ''TokenId'' cf_other_token_id)))))
     else bind (clone_api_token env cf_token_id) (\<lambda>new_token.
          bind (lift (set_attribute secret_value ''OtherTokenId'' cf_token_id)) (\<lambda>v1.
          bind (lift (getitem new_token ''value'')) (\<lambda>value.
          bind (lift (set_attribute v1 ''TokenValue'' value)) (\<lambda>v2.
          bind (lift (getitem new_token ''id'')) (\<lambda>new_id.
          lift (set_attribute v2 ''TokenId'' new_id))))))))))"

definition rotate_or_create_api_token :: "'w env \<Rightarrow> json \<Rightarrow> (json, 'w) prog" where
  "rotate_or_create_api_token env current_dict =
     bind (lift (getitem current_dict ''Attributes'')) (\<lambda>attributes.
     bind (lift (contains ''TokenId'' attributes)) (\<lambda>has_token.
     if \<not> has_token then create_api_token env current_dict
     else bind (lift (get_attribute current_dict ''TokenId'')) (\<lambda>cf_token_id.
          bind (token_exists env cf_token_id) (\<lambda>still_there.
          if \<not> still_there then create_api_token env current_dict
          else rotate_between_api_tokens env current_dict))))"

text \<open>
  \<open>create_secret\<close>, first \<open>try\<close> (lines 156 to 168): the record to start from is the
  \<open>AWSCURRENT\<close> version, and the \<open>CFINIT\<close> version when the store has no \<open>AWSCURRENT\<close>;
  the handler of the inner \<open>try\<close> raises what it caught.
\<close>

definition current_or_init :: "'w env \<Rightarrow> string \<Rightarrow> (json, 'w) prog" where
  "current_or_init env arn =
     catch (get_secret_dict env arn ''AWSCURRENT'' None)
       (\<lambda>e. if e = ResourceNotFoundException
             then catch (get_secret_dict env arn ''CFINIT'' None) (\<lambda>e'. raise e')
             else raise e)"

fun arn_of :: "json \<Rightarrow> error + string" where
  "arn_of (JStr s) = Inr s"
| "arn_of _ = Inl ParamValidationError"

text \<open>
  \<open>create_secret\<close>, the \<open>except\<close> branch of the second \<open>try\<close> up to the payload (lines 175
  to 213).
\<close>

definition pending_payload :: "'w env \<Rightarrow> json \<Rightarrow> (wire, 'w) prog" where
  "pending_payload env current_dict =
     bind (lift (getitem current_dict ''Type'')) (\<lambda>secret_type.
     bind (assert_env secret_type) (\<lambda>_.
     if secret_type = JStr ''apiToken'' then
       bind (rotate_or_create_api_token env current_dict) (\<lambda>r. ret (json_dumps r))
     else if secret_type = JStr ''tunnelServiceKey'' then
       bind (create_origintunnel_service_key env) (\<lambda>key.
       bind (lift (set_attribute current_dict ''KeyValue'' key)) (\<lambda>d.
       ret (json_dumps d)))
     else if secret_type = JStr ''argoTunnelToken'' then
       bind (lift (get_attribute current_dict ''Hostname'')) (\<lambda>hostname.
       bind (lift (get_attribute current_dict ''ValidityDays'')) (\<lambda>valid_days.
       bind (lift (get_attribute current_dict ''ZoneId'')) (\<lambda>zone_id.
       bind (lift (getitem current_dict ''Attributes'')) (\<lambda>attributes.
       bind (lift (contains ''TunnelServiceKeyArn'' attributes)) (\<lambda>has_arn.
       bind (if has_arn
             then bind (lift (get_attribute current_dict ''TunnelServiceKeyArn''))
                    (\<lambda>tunnel_service_key_arn.
                  bind (lift (arn_of tunnel_service_key_arn)) (\<lambda>key_arn.
                  bind (get_secret_dict env key_arn ''AWSCURRENT'' None) (\<lambda>key_dict.
                  lift (get_attribute key_dict ''KeyValue''))))
             else (\<lambda>w. (case environ w ''CF_TUNNEL_SERVICE_KEY'' of
                           None \<Rightarrow> Inl (KeyError ''CF_TUNNEL_SERVICE_KEY'')
                         | Some v \<Rightarrow> Inr (JStr v), w))) (\<lambda>tunnel_service_key.
       bind (create_argo_tunnel_token env zone_id tunnel_service_key hostname valid_days)
         (\<lambda>argo_token.
       bind (lift (setitem current_dict ''TokenValue'' (JStr argo_token))) (\<lambda>d.
       ret (json_dumps d)))))))))
     else raise (ValueError InvalidSecretType)))"

definition create_secret :: "'w env \<Rightarrow> string \<Rightarrow> string \<Rightarrow> (unit, 'w) prog" where
  "create_secret env arn token =
     bind (current_or_init env arn) (\<lambda>current_dict.
     catch (bind (query (GetSecretValue arn (Some token) ''AWSPENDING'')
                    (get_secret_value env arn (Some token) ''AWSPENDING'')) (\<lambda>_. ret ()))
       (\<lambda>e. if e = ResourceNotFoundException
             then bind (pending_payload env current_dict) (\<lambda>payload.
                  invoke (PutSecretValue arn token payload [''AWSPENDING''])
                    (put_secret_value env arn token payload [''AWSPENDING'']))
             else raise e))"

definition set_secret :: "'w env \<Rightarrow> string \<Rightarrow> string \<Rightarrow> (unit, 'w) prog" where
  "set_secret env arn token = ret ()"

definition test_secret :: "'w env \<Rightarrow> string \<Rightarrow> string \<Rightarrow> (unit, 'w) prog" where
  "test_secret env arn token =
     bind (get_secret_dict env arn ''AWSPENDING'' None) (\<lambda>pending_dict.
     bind (lift (getitem pending_dict ''Type'')) (\<lambda>secret_type.
     bind (assert_env secret_type) (\<lambda>_.
     if secret_type = JStr ''apiToken'' then
       bind (lift (get_attribute pending_dict ''TokenValue'')) (\<lambda>token_value.
       bind (is_token_valid env token_value) (\<lambda>valid.
       if \<not> valid
       then bind (lift (get_attribute pending_dict ''TokenId'')) (\<lambda>token_id.
            raise (ValueError TestingApiTokenFailed))
       else ret ()))
     else if secret_type = JStr ''tunnelServiceKey'' then ret ()
     else if secret_type = JStr ''argoTunnelToken'' then ret ()
     else raise (ValueError InvalidSecretType))))"

text \<open>
  The loop of \<open>finish_secret\<close> over the versions, to the first one that carries
  \<open>AWSCURRENT\<close>: \<open>None\<close> is the early return (that version is the token), \<open>Some v\<close> the
  value of \<open>current_version\<close> after the loop. The keys of a dict are distinct.
\<close>

fun current_scan :: "string \<Rightarrow> (string \<times> string list) list \<Rightarrow> string option option" where
  "current_scan token [] = Some None"
| "current_scan token ((version, stages) # rest) =
     (if ''AWSCURRENT'' \<in> set stages
      then (if version = token then None else Some (Some version))
      else current_scan token rest)"

definition versions_of :: "metadata \<Rightarrow> error + (string \<times> string list) list" where
  "versions_of m =
     (case VersionIdsToStages m of
        None \<Rightarrow> Inl (KeyError ''VersionIdsToStages'')
      | Some versions \<Rightarrow> Inr versions)"

definition finish_secret :: "'w env \<Rightarrow> string \<Rightarrow> string \<Rightarrow> (unit, 'w) prog" where
  "finish_secret env arn token =
     bind (query (DescribeSecret arn) (describe_secret env arn)) (\<lambda>metadata.
     bind (lift (versions_of metadata)) (\<lambda>versions.
     case current_scan token versions of
       None \<Rightarrow> ret ()
     | Some current_version \<Rightarrow>
         invoke (UpdateSecretVersionStage arn ''AWSCURRENT'' token current_version)
           (update_secret_version_stage env arn ''AWSCURRENT'' token current_version)))"

definition event_get :: "(string \<times> string) list \<Rightarrow> string \<Rightarrow> error + string" where
  "event_get event k = (case map_of event k of None \<Rightarrow> Inl (KeyError k) | Some v \<Rightarrow> Inr v)"

definition lambda_handler :: "'w env \<Rightarrow> (string \<times> string) list \<Rightarrow> (unit, 'w) prog" where
  "lambda_handler env event =
     bind (lift (event_get event ''SecretId'')) (\<lambda>arn.
     bind (lift (event_get event ''ClientRequestToken'')) (\<lambda>token.
     bind (lift (event_get event ''Step'')) (\<lambda>step.
     bind (query (DescribeSecret arn) (describe_secret env arn)) (\<lambda>metadata.
     bind (lift (case RotationEnabled metadata of
                   None \<Rightarrow> Inl (KeyError ''RotationEnabled'')
                 | Some enabled \<Rightarrow> Inr enabled)) (\<lambda>enabled.
     if \<not> enabled then raise (ValueError NotEnabledForRotation)
     else
     bind (lift (versions_of metadata)) (\<lambda>versions.
     case map_of versions token of
       None \<Rightarrow> raise (ValueError NoStageForRotation)
     | Some stages \<Rightarrow>
         if ''AWSCURRENT'' \<in> set stages then ret ()
         else if ''AWSPENDING'' \<notin> set stages then raise (ValueError NotSetAsPending)
         else if step = ''createSecret'' then create_secret env arn token
         else if step = ''setSecret'' then set_secret env arn token
         else if step = ''testSecret'' then test_secret env arn token
         else if step = ''finishSecret'' then finish_secret env arn token
         else raise (ValueError InvalidStep)))))))"

section \<open>Successive rotations\<close>



section \<open>A small store and provider to run the handler on\<close>

text \<open>
  An in-memory Secrets Manager and Cloudflare: versions of secrets with their stages and
  values, the live tokens by id, the ids and values of the tokens to issue next, the
  tokens that Cloudflare refuses to change, and a clock. The two date functions know the few dates that the runs below meet.
\<close>

record store =
  store_versions :: "(string \<times> string \<times> string list \<times> wire option) list"
  store_rotating :: "string list"
  store_tokens :: "(string \<times> json) list"
  store_fresh :: "(string \<times> string) list"
  store_frozen :: "string list"
  store_clock :: int

definition demo_describe_secret :: "string \<Rightarrow> store \<Rightarrow> error + metadata" where
  "demo_describe_secret arn s =
     (if arn \<in> set (map fst (store_versions s))
      then Inr \<lparr>RotationEnabled = Some (arn \<in> set (store_rotating s)),
                VersionIdsToStages =
                  Some (map (\<lambda>(a, v, st, p). (v, st)) (filter (\<lambda>(a, v, st, p). a = arn) (store_versions s)))\<rparr>
      else Inl ResourceNotFoundException)"

definition demo_get_secret_value :: "string \<Rightarrow> string option \<Rightarrow> string \<Rightarrow> store \<Rightarrow> error + secret_value" where
  "demo_get_secret_value arn vid stage s =
     (case find (\<lambda>(a, v, st, p). a = arn \<and> stage \<in> set st \<and> (vid = None \<or> vid = Some v) \<and> p \<noteq> None)
             (store_versions s) of
        None \<Rightarrow> Inl ResourceNotFoundException
      | Some (a, v, st, p) \<Rightarrow> Inr \<lparr>SecretString = p\<rparr>)"

definition demo_put_secret_value ::
  "string \<Rightarrow> string \<Rightarrow> wire \<Rightarrow> string list \<Rightarrow> store \<Rightarrow> (error + unit) \<times> store" where
  "demo_put_secret_value arn token payload stages s =
     (Inr (), s\<lparr>store_versions :=
        map (\<lambda>(a, v, st, p). if a = arn then (a, v, filter (\<lambda>l. l \<notin> set stages) st, p) else (a, v, st, p))
          (filter (\<lambda>(a, v, st, p). \<not> (a = arn \<and> v = token)) (store_versions s))
        @ [(arn, token, stages, Some payload)]\<rparr>)"

definition demo_update_secret_version_stage ::
  "string \<Rightarrow> string \<Rightarrow> string \<Rightarrow> string option \<Rightarrow> store \<Rightarrow> (error + unit) \<times> store" where
  "demo_update_secret_version_stage arn stage to from s =
     (Inr (), s\<lparr>store_versions :=
        map (\<lambda>(a, v, st, p).
               if a = arn \<and> from = Some v then (a, v, filter (\<lambda>l. l \<noteq> stage) st, p)
               else if a = arn \<and> v = to then (a, v, st @ [stage], p)
               else (a, v, st, p)) (store_versions s)\<rparr>)"

fun demo_tokens_get :: "json \<Rightarrow> store \<Rightarrow> error + json" where
  "demo_tokens_get (JStr i) s =
     (case map_of (store_tokens s) i of Some t \<Rightarrow> Inr t | None \<Rightarrow> Inl (CloudFlareAPIError 1003))"
| "demo_tokens_get _ s = Inl (CloudFlareAPIError 1003)"

fun demo_strftime :: "int \<Rightarrow> string" where
  "demo_strftime d =
     (if d div 1000000 = 1585699200 then ''2020-04-01T00:00:00Z''
      else if d div 1000000 = 1588291200 then ''2020-05-01T00:00:00Z''
      else ''1970-01-01T00:00:00Z'')"

fun demo_isoparse :: "json \<Rightarrow> error + datetime" where
  "demo_isoparse (JStr s) =
     (if s = ''2020-01-01T00:00:00Z'' then Inr (Aware 1577836800000000)
      else if s = ''2020-01-31T00:00:00Z'' then Inr (Aware 1580428800000000)
      else if s = ''2020-01-31T00:00:00'' then Inr (Naive 1580428800000000)
      else Inl (ValueError NotISO))"
| "demo_isoparse _ = Inl TypeError"

fun demo_tokens_post :: "json \<Rightarrow> store \<Rightarrow> (error + json) \<times> store" where
  "demo_tokens_post (JObj d) s =
     (case store_fresh s of
        [] \<Rightarrow> (Inl (CloudFlareAPIError 1001), s)
      | (i, v) # rest \<Rightarrow>
          (Inr (JObj ((''id'', JStr i) # d @ [(''issued_on'', JStr (demo_strftime (store_clock s))),
                  (''status'', JStr ''active''), (''value'', JStr v)])),
           s\<lparr>store_tokens := store_tokens s @ [(i, JObj ((''id'', JStr i) # d
                  @ [(''issued_on'', JStr (demo_strftime (store_clock s))), (''status'', JStr ''active'')]))],
             store_fresh := rest\<rparr>))"
| "demo_tokens_post _ s = (Inl (CloudFlareAPIError 1001), s)"

fun demo_tokens_put :: "json \<Rightarrow> json \<Rightarrow> store \<Rightarrow> (error + json) \<times> store" where
  "demo_tokens_put (JStr i) d s =
     (if i \<notin> set (map fst (store_tokens s)) then (Inl (CloudFlareAPIError 1003), s)
      else if i \<in> set (store_frozen s) then (Inl (CloudFlareAPIError 9109), s)
      else (Inr d, s\<lparr>store_tokens := AList.update i d (store_tokens s)\<rparr>))"
| "demo_tokens_put _ d s = (Inl (CloudFlareAPIError 1003), s)"

fun demo_tokens_value_put :: "json \<Rightarrow> store \<Rightarrow> (error + json) \<times> store" where
  "demo_tokens_value_put (JStr i) s =
     (if i \<in> set (map fst (store_tokens s)) then (Inr (JStr (''rolled-'' @ i)), s)
      else (Inl (CloudFlareAPIError 1003), s))"
| "demo_tokens_value_put _ s = (Inl (CloudFlareAPIError 1003), s)"

fun demo_py_str :: "json \<Rightarrow> string" where
  "demo_py_str (JStr s) = s"
| "demo_py_str _ = ''?''"

definition demo_env :: "store env" where
  "demo_env = \<lparr>
     describe_secret = demo_describe_secret,
     get_secret_value = demo_get_secret_value,
     put_secret_value = demo_put_secret_value,
     update_secret_version_stage = demo_update_secret_version_stage,
     tokens_get = demo_tokens_get,
     tokens_post = demo_tokens_post,
     tokens_put = demo_tokens_put,
     tokens_value_put = demo_tokens_value_put,
     tokens_verify = (\<lambda>v s. Inr (JObj [(''success'', JBool True),
                        (''result'', JObj [(''status'', JStr ''active'')])])),
     service_keys_origintunnel_get = (\<lambda>s. (Inr (JObj [(''service_key'', JStr ''sk-1'')]), s)),
     certificates_post = (\<lambda>d s. (Inr (JObj [(''certificate'', JStr ''CERT'')]), s)),
     generate_private_key = (\<lambda>s. (Inr (''key-1'', ''PEM''), s)),
     sign_csr = (\<lambda>k s. (Inr ''CSR'', s)),
     utcnow = store_clock,
     isoparse = demo_isoparse,
     strftime = demo_strftime,
     py_str = demo_py_str,
     b64encode = (\<lambda>s. s),
     wrap64 = (\<lambda>s. [s])\<rparr>"

definition demo_token :: "string \<Rightarrow> json" where
  "demo_token i = JObj [(''id'', JStr i), (''name'', JStr ''ci''), (''status'', JStr ''active''),
     (''issued_on'', JStr ''2020-01-01T00:00:00Z''), (''expires_on'', JStr ''2020-01-31T00:00:00Z''),
     (''policies'', JArr [JObj [(''id'', JStr ''p1''), (''effect'', JStr ''allow'')]])]"

definition demo_secret :: "(string \<times> json) list \<Rightarrow> json" where
  "demo_secret ids = JObj [(''Type'', JStr ''apiToken''),
     (''Attributes'', JObj ([(''Name'', JStr ''ci''),
        (''Policies'', JArr [JObj [(''id'', JStr ''p1''), (''effect'', JStr ''allow'')]]),
        (''ValidDays'', JInt 30)] @ ids))]"

definition demo_store ::
  "(string \<times> string \<times> string list \<times> wire option) list \<Rightarrow> (string \<times> json) list \<Rightarrow> store" where
  "demo_store vs live = \<lparr>
     store_versions = vs,
     store_rotating = [''arn-1''],
     store_tokens = live,
     store_fresh = [(''tok-c'', ''sv-c''), (''tok-d'', ''sv-d'')],
     store_frozen = [],
     store_clock = 1585699200000000\<rparr>"

text \<open>A secret in rotation: version \<open>v1\<close> is current, version \<open>v2\<close> is pending and empty.\<close>

definition in_rotation :: "json \<Rightarrow> (string \<times> string \<times> string list \<times> wire option) list" where
  "in_rotation current =
     [(''arn-1'', ''v1'', [''AWSCURRENT''], Some (Json current)),
      (''arn-1'', ''v2'', [''AWSPENDING''], None)]"

definition demo_world :: "store \<Rightarrow> store world" where
  "demo_world s = \<lparr>ext = s, environ = [''CF_API_TOKEN'' \<mapsto> ''t'', ''CF_API_CERTKEY'' \<mapsto> ''k'',
      ''CF_TUNNEL_SERVICE_KEY'' \<mapsto> ''sk-env''], log = []\<rparr>"

definition w_steady :: "store world" where
  "w_steady = demo_world (demo_store (in_rotation
      (demo_secret [(''TokenId'', JStr ''tok-a''), (''TokenValue'', JStr ''sv-a''), (''OtherTokenId'', JStr ''tok-b'')]))
      [(''tok-a'', demo_token ''tok-a''), (''tok-b'', demo_token ''tok-b'')])"

definition w_no_expiry :: "store world" where
  "w_no_expiry = demo_world (demo_store (in_rotation
      (demo_secret [(''TokenId'', JStr ''tok-a''), (''TokenValue'', JStr ''sv-a'')]))
      [(''tok-a'', JObj [(''id'', JStr ''tok-a''), (''name'', JStr ''ci''), (''status'', JStr ''active''),
          (''issued_on'', JStr ''2020-01-01T00:00:00Z''),
          (''policies'', JArr [JObj [(''id'', JStr ''p1''), (''effect'', JStr ''allow'')]])])])"

text \<open>A secret before its first rotation, and one that was never set up.\<close>

definition w_bootstrap :: "store world" where
  "w_bootstrap = demo_world (demo_store
      [(''arn-1'', ''v0'', [''CFINIT''], Some (Json (demo_secret []))),
       (''arn-1'', ''v2'', [''AWSPENDING''], None)] [])"

definition w_uninitialized :: "store world" where
  "w_uninitialized = demo_world (demo_store [(''arn-1'', ''v2'', [''AWSPENDING''], None)] [])"

text \<open>A secret whose pending version \<open>v2\<close> already carries \<open>AWSCURRENT\<close>.\<close>

definition w_finished :: "store world" where
  "w_finished = demo_world (demo_store
      [(''arn-1'', ''v1'', [''AWSPREVIOUS''], Some (Json (demo_secret []))),
       (''arn-1'', ''v2'', [''AWSCURRENT'', ''AWSPENDING''], Some (Json (demo_secret [])))] [])"

text \<open>An event for a version that the secret does not have.\<close>

definition unknown_version_event :: "(string \<times> string) list" where
  "unknown_version_event =
     [(''SecretId'', ''arn-1''), (''ClientRequestToken'', ''v9''), (''Step'', ''createSecret'')]"

text \<open>A retry of \<open>createSecret\<close>: the pending version \<open>v2\<close> already holds a value.\<close>

definition w_retry :: "store world" where
  "w_retry = demo_world (demo_store
      [(''arn-1'', ''v1'', [''AWSCURRENT''], Some (Json (demo_secret [(''TokenId'', JStr ''tok-a'')]))),
       (''arn-1'', ''v2'', [''AWSPENDING''],
          Some (Json (demo_secret [(''TokenId'', JStr ''tok-c''), (''OtherTokenId'', JStr ''tok-a'')])))]
      [])"

text \<open>A store that holds a pending value for \<open>v2\<close> and neither \<open>AWSCURRENT\<close> nor \<open>CFINIT\<close>.\<close>

definition w_pending_only :: "store world" where
  "w_pending_only = demo_world (demo_store
      [(''arn-1'', ''v2'', [''AWSPENDING''],
          Some (Json (demo_secret [(''TokenId'', JStr ''tok-c'')])))] [])"

text \<open>A pair whose active token \<open>tok-a\<close> was deleted at Cloudflare.\<close>

definition stale_pair :: json where
  "stale_pair = demo_secret [(''TokenId'', JStr ''tok-a''), (''TokenValue'', JStr ''sv-a''),
     (''OtherTokenId'', JStr ''tok-b'')]"

definition w_self_heal :: "store world" where
  "w_self_heal = demo_world (demo_store (in_rotation
      (demo_secret [(''TokenId'', JStr ''tok-a''), (''TokenValue'', JStr ''sv-a''), (''OtherTokenId'', JStr ''tok-b'')]))
      [(''tok-b'', demo_token ''tok-b'')])"

text \<open>The pair \<open>tok-a\<close>, \<open>tok-b\<close> in its steady state.\<close>

definition steady_pair :: json where
  "steady_pair = demo_secret [(''TokenId'', JStr ''tok-a''), (''TokenValue'', JStr ''sv-a''),
     (''OtherTokenId'', JStr ''tok-b'')]"


text \<open>
  A tunnel token in rotation; its service key comes from the environment. The attribute
  \<open>TokenValue\<close> holds the token of the rotation before.
\<close>

definition argo_secret :: json where
  "argo_secret = JObj [(''Type'', JStr ''argoTunnelToken''),
     (''Attributes'', JObj [(''Hostname'', JStr ''foo.example.com''), (''ValidityDays'', JInt 30),
        (''ZoneId'', JStr ''z1''), (''TokenValue'', JStr ''old-token'')])]"

definition w_argo :: "store world" where
  "w_argo = demo_world (demo_store (in_rotation argo_secret) [])"

section \<open>Laws of the combinators\<close>

lemma bind_ret [simp]: "bind (ret x) f = f x"
  by (simp add: bind_def ret_def)

lemma bind_raise [simp]: "bind (raise e) f = raise e"
  by (simp add: bind_def raise_def)

lemma bind_lift: "bind (lift r) f w = (case r of Inl e \<Rightarrow> (Inl e, w) | Inr x \<Rightarrow> f x w)"
  by (simp add: bind_def lift_def split: sum.splits)

lemma bind_lift_Inr [simp]: "bind (lift (Inr x)) f = f x"
  by (rule ext) (simp add: bind_lift)

lemma bind_lift_Inl [simp]: "bind (lift (Inl e)) f = raise e"
  by (rule ext) (simp add: bind_lift raise_def)

lemma bind_Pair_Inr [simp]: "bind (Pair (Inr x)) f = f x"
  by (rule ext) (simp add: bind_def)

lemma bind_Pair_Inl [simp]: "bind (Pair (Inl e)) f = Pair (Inl e)"
  by (rule ext) (simp add: bind_def)

lemma bind_gets [simp]: "bind (gets g) f w = f (g (ext w)) w"
  by (simp add: bind_def gets_def)

lemma bind_query:
  "bind (query c g) f w =
     (case g (ext w) of
        Inl e \<Rightarrow> (Inl e, w\<lparr>log := log w @ [c]\<rparr>)
      | Inr x \<Rightarrow> f x (w\<lparr>log := log w @ [c]\<rparr>))"
  by (simp add: bind_def query_def split: sum.splits)

lemma raise_apply [simp]: "raise e w = (Inl e, w)"
  by (simp add: raise_def)

lemma ret_apply [simp]: "ret x w = (Inr x, w)"
  by (simp add: ret_def)

lemma lift_apply [simp]: "lift r w = (r, w)"
  by (simp add: lift_def)

lemma validity_window_unbound:
  "''expires_on'' \<notin> set (map fst tok) \<Longrightarrow>
   validity_window env (JObj tok) = Inl (UnboundLocalError ''expires_date'')"
  by (simp add: validity_window_def)

lemma map_of_key: "map_of al k = Some v \<Longrightarrow> k \<in> set (map fst al)"
  by (metis map_of_eq_None_iff option.distinct(1) set_map)


lemma demo_env_fields:
  "describe_secret demo_env = demo_describe_secret"
  "get_secret_value demo_env = demo_get_secret_value"
  "put_secret_value demo_env = demo_put_secret_value"
  "update_secret_version_stage demo_env = demo_update_secret_version_stage"
  "tokens_get demo_env = demo_tokens_get"
  "tokens_post demo_env = demo_tokens_post"
  "tokens_put demo_env = demo_tokens_put"
  "tokens_value_put demo_env = demo_tokens_value_put"
  "utcnow demo_env = store_clock"
  "isoparse demo_env = demo_isoparse"
  "strftime demo_env = demo_strftime"
  by (simp_all add: demo_env_def)

lemma demo_env_more_fields:
  "tokens_verify demo_env = (\<lambda>v s. Inr (JObj [(''success'', JBool True),
                        (''result'', JObj [(''status'', JStr ''active'')])]))"
  "service_keys_origintunnel_get demo_env = (\<lambda>s. (Inr (JObj [(''service_key'', JStr ''sk-1'')]), s))"
  "certificates_post demo_env = (\<lambda>d s. (Inr (JObj [(''certificate'', JStr ''CERT'')]), s))"
  "generate_private_key demo_env = (\<lambda>s. (Inr (''key-1'', ''PEM''), s))"
  "sign_csr demo_env = (\<lambda>k s. (Inr ''CSR'', s))"
  by (simp_all add: demo_env_def)

lemmas demo_defs = demo_env_fields demo_world_def demo_store_def in_rotation_def demo_token_def demo_secret_def
  demo_describe_secret_def demo_get_secret_value_def
  demo_put_secret_value_def demo_update_secret_version_stage_def

lemma catch_apply:
  "catch m h w = (case m w of (Inl e, w') \<Rightarrow> h e w' | (Inr x, w') \<Rightarrow> (Inr x, w'))"
  by (simp add: catch_def)

lemma get_secret_dict_apply:
  "get_secret_dict env arn stage None w =
     (case get_secret_value env arn None stage (ext w) of
        Inl e \<Rightarrow> Inl e
      | Inr secret \<Rightarrow>
          (case SecretString secret of
             None \<Rightarrow> Inl (KeyError ''SecretString'')
           | Some plaintext \<Rightarrow> json_loads plaintext),
      w\<lparr>log := log w @ [GetSecretValue arn None stage]\<rparr>)"
  by (simp add: get_secret_dict_def bind_query bind_lift split: sum.splits option.splits)

lemma json_loads_error: "json_loads x = Inl e \<Longrightarrow> e = ValueError NotJSON"
  by (cases x) simp_all

lemma token_exists_apply:
  "token_exists env t w =
     (case tokens_get env t (ext w) of
        Inr existing \<Rightarrow> Inr True
      | Inl e \<Rightarrow> (case e of
                   CloudFlareAPIError code \<Rightarrow> if code = 1003 then Inr False else Inl e
                 | _ \<Rightarrow> Inl e),
      w\<lparr>log := log w @ [TokensGet t]\<rparr>)"
  by (simp add: token_exists_def catch_apply bind_query split: sum.splits error.splits)

lemma set_attribute_apply:
  "map_of kvs ''Attributes'' = Some (JObj attrs) \<Longrightarrow>
   set_attribute (JObj kvs) k v
     = Inr (JObj (AList.update ''Attributes'' (JObj (AList.update k v attrs)) kvs))"
  by (simp add: set_attribute_def)

lemma get_attribute_apply:
  "map_of kvs ''Attributes'' = Some (JObj attrs) \<Longrightarrow>
   get_attribute (JObj kvs) k = getitem (JObj attrs) k"
  by (simp add: get_attribute_def)

lemma create_api_token_apply:
  assumes secret: "map_of kvs ''Attributes'' = Some (JObj attrs)"
    and attrs: "map_of attrs ''Name'' = Some name" "map_of attrs ''Policies'' = Some policies"
      "map_of attrs ''ValidDays'' = Some valid_days"
    and issue: "cf_create_api_token env name policies valid_days w = (Inr new_token, w')"
    and new: "getitem new_token ''value'' = Inr v" "getitem new_token ''id'' = Inr c"
  shows "create_api_token env (JObj kvs) w
      = (Inr (JObj (AList.update ''Attributes''
                (JObj (AList.update ''TokenId'' c (AList.update ''TokenValue'' v attrs))) kvs)), w')"
  using assms
  by (simp add: create_api_token_def get_attribute_apply set_attribute_apply bind_def update_conv')

section \<open>One rotation between two tokens\<close>




lemma token_exists_log:
  "fst (token_exists env t (w\<lparr>log := l\<rparr>)) = fst (token_exists env t w)"
  by (simp add: token_exists_apply)




text \<open>The definitions that a run of a rotation on the small store unfolds.\<close>

lemmas run_defs = rotate_or_create_api_token_def rotate_between_api_tokens_def
  renew_api_token_def roll_api_token_def token_exists_apply validity_window_def
  get_attribute_def set_attribute_def bind_def gets_def invoke_def query_def
  datetime_add_def datetime_min_def datetime_max_def date_fmt_def
  demo_env_fields demo_world_def demo_store_def in_rotation_def demo_token_def demo_secret_def
  steady_pair_def

section \<open>Alternation between two tokens\<close>


lemma first_rotation:
  "fst (rotate_or_create_api_token demo_env steady_pair w_steady)
     = Inr (demo_secret [(''TokenId'', JStr ''tok-b''), (''TokenValue'', JStr ''rolled-tok-b''),
         (''OtherTokenId'', JStr ''tok-a'')])"
  by (simp add: run_defs w_steady_def)






section \<open>A token that was deleted at Cloudflare\<close>

text \<open>
  C2, as the code has it. For a record whose \<open>TokenId\<close> Cloudflare no longer knows,
  \<open>rotate_or_create_api_token\<close> issues a new credential from the name, the policies and
  the valid days of the record and, when that succeeds, returns the record with
  \<open>TokenValue\<close> and \<open>TokenId\<close> set to the value and the id of the new credential.
  Every other attribute stays as it was: an \<open>OtherTokenId\<close> of the record is kept, and
  the result has none only when the record had none.
\<close>

theorem self_heal_keeps_other_attributes:
  assumes secret: "map_of kvs ''Attributes'' = Some (JObj attrs)"
    and id: "map_of attrs ''TokenId'' = Some a"
    and gone: "token_exists env a w = (Inr False, w1)"
    and attrs: "map_of attrs ''Name'' = Some name" "map_of attrs ''Policies'' = Some policies"
      "map_of attrs ''ValidDays'' = Some valid_days"
    and issue: "cf_create_api_token env name policies valid_days w1 = (Inr new_token, w2)"
    and new: "getitem new_token ''value'' = Inr v" "getitem new_token ''id'' = Inr c"
  shows "rotate_or_create_api_token env (JObj kvs) w
           = (Inr (JObj (AList.update ''Attributes''
                (JObj (AList.update ''TokenId'' c (AList.update ''TokenValue'' v attrs))) kvs)), w2)
       \<and> map_of (AList.update ''TokenId'' c (AList.update ''TokenValue'' v attrs)) ''OtherTokenId''
           = map_of attrs ''OtherTokenId''
       \<and> (\<forall>k. k \<noteq> ''TokenId'' \<and> k \<noteq> ''TokenValue'' \<longrightarrow>
             map_of (AList.update ''TokenId'' c (AList.update ''TokenValue'' v attrs)) k
               = map_of attrs k)"
proof -
  have key: "''TokenId'' \<in> set (map fst attrs)"
    using id by (rule map_of_key)
  have "rotate_or_create_api_token env (JObj kvs) w
      = (Inr (JObj (AList.update ''Attributes''
                (JObj (AList.update ''TokenId'' c (AList.update ''TokenValue'' v attrs))) kvs)), w2)"
    using secret id key gone create_api_token_apply [OF secret attrs issue new]
    by (simp add: rotate_or_create_api_token_def get_attribute_apply bind_def)
  then show ?thesis
    by (simp add: update_conv')
qed

lemma issue_in_w_self_heal:
  "fst (cf_create_api_token demo_env (JStr ''ci'')
          (JArr [JObj [(''id'', JStr ''p1''), (''effect'', JStr ''allow'')]]) (JInt 30)
          (w_self_heal\<lparr>log := log w_self_heal @ [TokensGet (JStr ''tok-a'')]\<rparr>))
     = Inr (JObj [(''id'', JStr ''tok-c''), (''name'', JStr ''ci''),
         (''not_before'', JStr ''2020-04-01T00:00:00Z''),
         (''policies'', JArr [JObj [(''effect'', JStr ''allow'')]]),
         (''expires_on'', JStr ''2020-05-01T00:00:00Z''),
         (''issued_on'', JStr ''2020-04-01T00:00:00Z''), (''status'', JStr ''active''),
         (''value'', JStr ''sv-c'')])"
  by (simp add: cf_create_api_token_def for_each_policy_def del_id_if_present_def
      datetime_add_def datetime_min_def datetime_max_def date_fmt_def invoke_def
      demo_env_fields demo_world_def demo_store_def w_self_heal_def)

lemma gone_in_w_self_heal:
  "token_exists demo_env (JStr ''tok-a'') w_self_heal
     = (Inr False, w_self_heal\<lparr>log := log w_self_heal @ [TokensGet (JStr ''tok-a'')]\<rparr>)"
  by (simp add: token_exists_apply demo_env_fields demo_world_def demo_store_def
      demo_token_def w_self_heal_def)

theorem self_heal_keeps_other_attributes_witness:
  "token_exists demo_env (JStr ''tok-a'') w_self_heal
     = (Inr False, w_self_heal\<lparr>log := log w_self_heal @ [TokensGet (JStr ''tok-a'')]\<rparr>)
   \<and> fst (rotate_or_create_api_token demo_env stale_pair w_self_heal)
       = Inr (demo_secret [(''TokenId'', JStr ''tok-c''), (''TokenValue'', JStr ''sv-c''),
                (''OtherTokenId'', JStr ''tok-b'')])"
proof -
  let ?w1 = "w_self_heal\<lparr>log := log w_self_heal @ [TokensGet (JStr ''tok-a'')]\<rparr>"
  let ?policies = "JArr [JObj [(''id'', JStr ''p1''), (''effect'', JStr ''allow'')]]"
  let ?attrs = "[(''Name'', JStr ''ci''), (''Policies'', ?policies), (''ValidDays'', JInt 30),
     (''TokenId'', JStr ''tok-a''), (''TokenValue'', JStr ''sv-a''), (''OtherTokenId'', JStr ''tok-b'')]"
  let ?kvs = "[(''Type'', JStr ''apiToken''), (''Attributes'', JObj ?attrs)]"
  let ?new = "JObj [(''id'', JStr ''tok-c''), (''name'', JStr ''ci''),
         (''not_before'', JStr ''2020-04-01T00:00:00Z''),
         (''policies'', JArr [JObj [(''effect'', JStr ''allow'')]]),
         (''expires_on'', JStr ''2020-05-01T00:00:00Z''),
         (''issued_on'', JStr ''2020-04-01T00:00:00Z''), (''status'', JStr ''active''),
         (''value'', JStr ''sv-c'')]"
  have secret: "map_of ?kvs ''Attributes'' = Some (JObj ?attrs)"
    by simp
  have id: "map_of ?attrs ''TokenId'' = Some (JStr ''tok-a'')"
    by simp
  have attrs: "map_of ?attrs ''Name'' = Some (JStr ''ci'')"
    "map_of ?attrs ''Policies'' = Some ?policies" "map_of ?attrs ''ValidDays'' = Some (JInt 30)"
    by simp_all
  obtain w2 where issue: "cf_create_api_token demo_env (JStr ''ci'') ?policies (JInt 30) ?w1
      = (Inr ?new, w2)"
    using issue_in_w_self_heal by (metis prod.collapse)
  have new: "getitem ?new ''value'' = Inr (JStr ''sv-c'')" "getitem ?new ''id'' = Inr (JStr ''tok-c'')"
    by simp_all
  have "rotate_or_create_api_token demo_env (JObj ?kvs) w_self_heal
      = (Inr (JObj (AList.update ''Attributes''
           (JObj (AList.update ''TokenId'' (JStr ''tok-c'')
              (AList.update ''TokenValue'' (JStr ''sv-c'') ?attrs))) ?kvs)), w2)"
    using self_heal_keeps_other_attributes
      [OF secret id gone_in_w_self_heal attrs issue new]
    by (rule conjunct1)
  then have "fst (rotate_or_create_api_token demo_env (JObj ?kvs) w_self_heal)
       = Inr (demo_secret [(''TokenId'', JStr ''tok-c''), (''TokenValue'', JStr ''sv-c''),
                (''OtherTokenId'', JStr ''tok-b'')])"
    by (simp add: demo_secret_def)
  then show ?thesis
    using gone_in_w_self_heal by (simp add: stale_pair_def demo_secret_def)
qed

text \<open>
  The claim as stated, that the result carries no \<open>OtherTokenId\<close>, does not hold: the
  record with the deleted \<open>tok-a\<close> and the standby \<open>tok-b\<close> comes back with
  \<open>OtherTokenId\<close> still \<open>tok-b\<close>.
\<close>

theorem self_heal_drops_other_token_id_counterexample:
  "get_attribute stale_pair ''TokenId'' = Inr (JStr ''tok-a'')
   \<and> fst (token_exists demo_env (JStr ''tok-a'') w_self_heal) = Inr False
   \<and> fst (rotate_or_create_api_token demo_env stale_pair w_self_heal)
       = Inr (demo_secret [(''TokenId'', JStr ''tok-c''), (''TokenValue'', JStr ''sv-c''),
                (''OtherTokenId'', JStr ''tok-b'')])
   \<and> get_attribute (demo_secret [(''TokenId'', JStr ''tok-c''), (''TokenValue'', JStr ''sv-c''),
                (''OtherTokenId'', JStr ''tok-b'')]) ''OtherTokenId'' = Inr (JStr ''tok-b'')"
proof -
  let ?w1 = "w_self_heal\<lparr>log := log w_self_heal @ [TokensGet (JStr ''tok-a'')]\<rparr>"
  obtain w2 where issue: "cf_create_api_token demo_env (JStr ''ci'')
          (JArr [JObj [(''id'', JStr ''p1''), (''effect'', JStr ''allow'')]]) (JInt 30) ?w1
     = (Inr (JObj [(''id'', JStr ''tok-c''), (''name'', JStr ''ci''),
         (''not_before'', JStr ''2020-04-01T00:00:00Z''),
         (''policies'', JArr [JObj [(''effect'', JStr ''allow'')]]),
         (''expires_on'', JStr ''2020-05-01T00:00:00Z''),
         (''issued_on'', JStr ''2020-04-01T00:00:00Z''), (''status'', JStr ''active''),
         (''value'', JStr ''sv-c'')]), w2)"
    using issue_in_w_self_heal by (metis prod.collapse)
  have "fst (rotate_or_create_api_token demo_env stale_pair w_self_heal)
       = Inr (demo_secret [(''TokenId'', JStr ''tok-c''), (''TokenValue'', JStr ''sv-c''),
                (''OtherTokenId'', JStr ''tok-b'')])"
    by (simp add: rotate_or_create_api_token_def create_api_token_def get_attribute_def
        set_attribute_def bind_def gone_in_w_self_heal issue stale_pair_def demo_secret_def)
  then show ?thesis
    using gone_in_w_self_heal by (simp add: get_attribute_def stale_pair_def demo_secret_def)
qed

section \<open>The token of a tunnel\<close>

text \<open>
  C4. \<open>create_secret\<close> on an \<open>argoTunnelToken\<close> record asks for a tunnel token with the
  \<open>ZoneId\<close>, the service key, the \<open>Hostname\<close> and the \<open>ValidityDays\<close> of the record, and
  the claim is that it overwrites the attribute \<open>TokenValue\<close> of the record with that token
  before it stores the pending payload. The code does not: line 207 assigns
  \<open>current_dict["TokenValue"]\<close>, a key of the record beside \<open>Type\<close> and
  \<open>Attributes\<close>, where the other two kinds assign into \<open>Attributes\<close>. On the record
  below, the payload stored keeps \<open>old-token\<close> as the attribute \<open>TokenValue\<close> and carries
  the new token outside the attributes.
\<close>

theorem argo_token_value_outside_attributes:
  "fst (create_secret demo_env ''arn-1'' ''v2'' w_argo) = Inr ()
   \<and> last (log (snd (create_secret demo_env ''arn-1'' ''v2'' w_argo)))
       = PutSecretValue ''arn-1'' ''v2''
           (Json (JObj [(''Type'', JStr ''argoTunnelToken''),
              (''Attributes'', JObj [(''Hostname'', JStr ''foo.example.com''),
                 (''ValidityDays'', JInt 30), (''ZoneId'', JStr ''z1''),
                 (''TokenValue'', JStr ''old-token'')]),
              (''TokenValue'', JStr (format_argo_tunnel_token demo_env (JStr ''z1'')
                 (JStr ''sk-env'') ''PEM'' ''CERT''))]))
           [''AWSPENDING'']"
  by (simp add: create_secret_def current_or_init_def catch_apply get_secret_dict_apply
      pending_payload_def assert_env_def getenv_def get_attribute_def json_dumps_def
      create_argo_tunnel_token_def create_private_key_def create_origin_certificate_def
      strip_def is_space_def
      bind_def gets_def invoke_def query_def demo_env_fields demo_env_more_fields
      demo_get_secret_value_def demo_put_secret_value_def
      demo_world_def demo_store_def in_rotation_def argo_secret_def w_argo_def)

section \<open>Creating a secret that is created\<close>

lemma current_or_init_reads:
  "\<exists>reads. snd (current_or_init env arn w) = w\<lparr>log := log w @ reads\<rparr>
     \<and> set reads \<subseteq> {GetSecretValue arn None ''AWSCURRENT'', GetSecretValue arn None ''CFINIT''}"
proof (cases "get_secret_value env arn None ''AWSCURRENT'' (ext w) = Inl ResourceNotFoundException")
  case True
  then have "snd (current_or_init env arn w)
      = w\<lparr>log := log w @ [GetSecretValue arn None ''AWSCURRENT'', GetSecretValue arn None ''CFINIT'']\<rparr>"
    by (auto simp add: current_or_init_def catch_apply get_secret_dict_apply split: sum.splits)
  then show ?thesis
    by (intro exI [of _ "[GetSecretValue arn None ''AWSCURRENT'', GetSecretValue arn None ''CFINIT'']"]) simp
next
  case False
  then have "snd (current_or_init env arn w)
      = w\<lparr>log := log w @ [GetSecretValue arn None ''AWSCURRENT'']\<rparr>"
    by (cases "get_secret_value env arn None ''AWSCURRENT'' (ext w)")
       (auto simp add: current_or_init_def catch_apply get_secret_dict_apply
          split: sum.splits option.splits dest: json_loads_error)
  then show ?thesis
    by (intro exI [of _ "[GetSecretValue arn None ''AWSCURRENT'']"]) simp
qed

text \<open>
  C5, as the code has it. When the store holds an \<open>AWSPENDING\<close> value for the version
  token, a call of \<open>create_secret\<close> has no side effect: it only reads the store, the
  record to start from (\<open>AWSCURRENT\<close>, else \<open>CFINIT\<close>) and then the pending value,
  writes nothing, calls Cloudflare for nothing and leaves the outside world as it was, so
  a second call with the same token finds the payload of the first and issues no second
  credential. The code reads the record to start from before it looks for the pending
  value: the call returns normally when that read succeeds, and ends in the error of that
  read otherwise.
\<close>

theorem create_secret_idempotent:
  assumes pending: "get_secret_value env arn (Some token) ''AWSPENDING'' (ext w) = Inr pending"
  shows "(\<exists>reads. snd (create_secret env arn token w) = w\<lparr>log := log w @ reads\<rparr>
            \<and> set reads \<subseteq> {GetSecretValue arn None ''AWSCURRENT'',
                  GetSecretValue arn None ''CFINIT'', GetSecretValue arn (Some token) ''AWSPENDING''})
       \<and> fst (create_secret env arn token w)
           = (case fst (current_or_init env arn w) of Inl e \<Rightarrow> Inl e | Inr current_dict \<Rightarrow> Inr ())"
proof -
  obtain reads where reads: "snd (current_or_init env arn w) = w\<lparr>log := log w @ reads\<rparr>"
    "set reads \<subseteq> {GetSecretValue arn None ''AWSCURRENT'', GetSecretValue arn None ''CFINIT''}"
    using current_or_init_reads by blast
  show ?thesis
  proof (cases "fst (current_or_init env arn w)")
    case (Inl e)
    then have "create_secret env arn token w = (Inl e, w\<lparr>log := log w @ reads\<rparr>)"
      using reads(1) by (cases "current_or_init env arn w") (simp add: create_secret_def bind_def)
    then show ?thesis
      using Inl reads(2) by auto
  next
    case (Inr current_dict)
    then have "create_secret env arn token w
        = (Inr (), w\<lparr>log := log w @ reads @ [GetSecretValue arn (Some token) ''AWSPENDING'']\<rparr>)"
      using reads(1) pending
      by (cases "current_or_init env arn w")
         (simp add: create_secret_def bind_def catch_apply query_def)
    then show ?thesis
      using Inr reads(2)
      by (auto intro!: exI [of _ "reads @ [GetSecretValue arn (Some token) ''AWSPENDING'']"])
  qed
qed

theorem create_secret_idempotent_witness:
  "get_secret_value demo_env ''arn-1'' (Some ''v2'') ''AWSPENDING'' (ext w_retry)
     = Inr \<lparr>SecretString = Some (Json (demo_secret
              [(''TokenId'', JStr ''tok-c''), (''OtherTokenId'', JStr ''tok-a'')]))\<rparr>
   \<and> fst (create_secret demo_env ''arn-1'' ''v2'' w_retry) = Inr ()
   \<and> ext (snd (create_secret demo_env ''arn-1'' ''v2'' w_retry)) = ext w_retry
   \<and> set (log (snd (create_secret demo_env ''arn-1'' ''v2'' w_retry)))
       \<subseteq> {GetSecretValue ''arn-1'' None ''AWSCURRENT'', GetSecretValue ''arn-1'' None ''CFINIT'',
           GetSecretValue ''arn-1'' (Some ''v2'') ''AWSPENDING''}"
proof -
  have pending: "get_secret_value demo_env ''arn-1'' (Some ''v2'') ''AWSPENDING'' (ext w_retry)
     = Inr \<lparr>SecretString = Some (Json (demo_secret
              [(''TokenId'', JStr ''tok-c''), (''OtherTokenId'', JStr ''tok-a'')]))\<rparr>"
    by (simp add: demo_env_fields demo_get_secret_value_def demo_world_def demo_store_def w_retry_def)
  have current: "fst (current_or_init demo_env ''arn-1'' w_retry)
      = Inr (demo_secret [(''TokenId'', JStr ''tok-a'')])"
    by (simp add: current_or_init_def catch_apply get_secret_dict_apply
        demo_env_fields demo_get_secret_value_def demo_world_def demo_store_def w_retry_def)
  have empty: "log w_retry = []"
    by (simp add: w_retry_def demo_world_def)
  show ?thesis
    using pending create_secret_idempotent [OF pending] current empty
    by auto
qed

text \<open>
  The claim as stated, that the call returns whenever the pending value exists, does not
  hold: with a pending value and no record to start from, the first read raises.
\<close>

theorem create_secret_returns_counterexample:
  "get_secret_value demo_env ''arn-1'' (Some ''v2'') ''AWSPENDING'' (ext w_pending_only)
     = Inr \<lparr>SecretString = Some (Json (demo_secret [(''TokenId'', JStr ''tok-c'')]))\<rparr>
   \<and> create_secret demo_env ''arn-1'' ''v2'' w_pending_only
       = (Inl ResourceNotFoundException,
          w_pending_only\<lparr>log := log w_pending_only @ [GetSecretValue ''arn-1'' None ''AWSCURRENT'',
             GetSecretValue ''arn-1'' None ''CFINIT'']\<rparr>)"
  by (simp add: create_secret_def bind_def current_or_init_def catch_apply get_secret_dict_apply
      demo_env_fields demo_get_secret_value_def demo_world_def demo_store_def w_pending_only_def)

section \<open>Finishing a rotation that is finished\<close>

lemma current_scan_already:
  assumes "(token, stages) \<in> set versions" "''AWSCURRENT'' \<in> set stages"
    and "\<forall>(v, st) \<in> set versions. ''AWSCURRENT'' \<in> set st \<longrightarrow> v = token"
  shows "current_scan token versions = None"
  using assms by (induction versions) auto

text \<open>
  C6. Idempotence of \<open>finish_secret\<close>. When the stage mapping of the secret already
  assigns \<open>AWSCURRENT\<close> to the target version, and to no other version (the store keeps
  the label on one version), \<open>finish_secret\<close> returns after reading the description of the
  secret: the stage move is not called and the store is not changed.
\<close>

theorem finish_secret_idempotent:
  assumes describe: "describe_secret env arn (ext w) = Inr metadata"
    and versions: "VersionIdsToStages metadata = Some versions"
    and target: "(token, stages) \<in> set versions" "''AWSCURRENT'' \<in> set stages"
    and one: "\<forall>(v, st) \<in> set versions. ''AWSCURRENT'' \<in> set st \<longrightarrow> v = token"
  shows "finish_secret env arn token w = (Inr (), w\<lparr>log := log w @ [DescribeSecret arn]\<rparr>)"
  using describe versions current_scan_already [OF target one]
  by (simp add: finish_secret_def bind_query versions_of_def)

theorem finish_secret_idempotent_witness:
  "describe_secret demo_env ''arn-1'' (ext w_finished)
     = Inr \<lparr>RotationEnabled = Some True,
            VersionIdsToStages = Some [(''v1'', [''AWSPREVIOUS'']), (''v2'', [''AWSCURRENT'', ''AWSPENDING''])]\<rparr>
   \<and> finish_secret demo_env ''arn-1'' ''v2'' w_finished
       = (Inr (), w_finished\<lparr>log := log w_finished @ [DescribeSecret ''arn-1'']\<rparr>)"
proof -
  let ?versions = "[(''v1'', [''AWSPREVIOUS'']), (''v2'', [''AWSCURRENT'', ''AWSPENDING''])]"
  let ?metadata = "\<lparr>RotationEnabled = Some True, VersionIdsToStages = Some ?versions\<rparr>"
  have describe: "describe_secret demo_env ''arn-1'' (ext w_finished) = Inr ?metadata"
    by (simp add: demo_defs w_finished_def)
  have versions: "VersionIdsToStages ?metadata = Some ?versions"
    by simp
  have target: "(''v2'', [''AWSCURRENT'', ''AWSPENDING'']) \<in> set ?versions"
    "''AWSCURRENT'' \<in> set [''AWSCURRENT'', ''AWSPENDING'']"
    by simp_all
  have one: "\<forall>(v, st) \<in> set ?versions. ''AWSCURRENT'' \<in> set st \<longrightarrow> v = ''v2''"
    by simp
  show ?thesis
    using describe finish_secret_idempotent [OF describe versions target one]
    by simp
qed

section \<open>The record a new secret starts from\<close>

text \<open>
  C7, as the code has it. \<open>create_secret\<close> starts from the \<open>AWSCURRENT\<close> version
  and turns to the \<open>CFINIT\<close> version only when the store answers the first read with
  \<open>ResourceNotFoundException\<close>. When the store has neither, the phase ends in that
  \<open>ResourceNotFoundException\<close> of the second read, which the handler raises again
  after its message; nothing is written.
\<close>

theorem reference_record_fallback:
  "(get_secret_value env arn None ''AWSCURRENT'' (ext w) \<noteq> Inl ResourceNotFoundException \<longrightarrow>
      current_or_init env arn w = get_secret_dict env arn ''AWSCURRENT'' None w)
   \<and> (get_secret_value env arn None ''AWSCURRENT'' (ext w) = Inl ResourceNotFoundException \<longrightarrow>
      current_or_init env arn w =
        get_secret_dict env arn ''CFINIT'' None
          (w\<lparr>log := log w @ [GetSecretValue arn None ''AWSCURRENT'']\<rparr>))
   \<and> (get_secret_value env arn None ''AWSCURRENT'' (ext w) = Inl ResourceNotFoundException
      \<and> get_secret_value env arn None ''CFINIT'' (ext w) = Inl ResourceNotFoundException \<longrightarrow>
      create_secret env arn token w =
        (Inl ResourceNotFoundException,
         w\<lparr>log := log w @ [GetSecretValue arn None ''AWSCURRENT'',
                            GetSecretValue arn None ''CFINIT'']\<rparr>))"
proof (intro conjI impI)
  assume "get_secret_value env arn None ''AWSCURRENT'' (ext w) \<noteq> Inl ResourceNotFoundException"
  then show "current_or_init env arn w = get_secret_dict env arn ''AWSCURRENT'' None w"
    by (cases "get_secret_value env arn None ''AWSCURRENT'' (ext w)")
       (auto simp add: current_or_init_def catch_apply get_secret_dict_apply
          split: option.splits sum.splits dest: json_loads_error)
next
  assume "get_secret_value env arn None ''AWSCURRENT'' (ext w) = Inl ResourceNotFoundException"
  then show "current_or_init env arn w =
        get_secret_dict env arn ''CFINIT'' None
          (w\<lparr>log := log w @ [GetSecretValue arn None ''AWSCURRENT'']\<rparr>)"
    by (auto simp add: current_or_init_def catch_apply get_secret_dict_apply
          split: sum.splits option.splits)
next
  assume "get_secret_value env arn None ''AWSCURRENT'' (ext w) = Inl ResourceNotFoundException
      \<and> get_secret_value env arn None ''CFINIT'' (ext w) = Inl ResourceNotFoundException"
  then show "create_secret env arn token w =
        (Inl ResourceNotFoundException,
         w\<lparr>log := log w @ [GetSecretValue arn None ''AWSCURRENT'',
                            GetSecretValue arn None ''CFINIT'']\<rparr>)"
    by (simp add: create_secret_def bind_def current_or_init_def catch_apply get_secret_dict_apply)
qed

theorem reference_record_fallback_witness:
  "get_secret_value demo_env ''arn-1'' None ''AWSCURRENT'' (ext w_retry)
     = Inr \<lparr>SecretString = Some (Json (demo_secret [(''TokenId'', JStr ''tok-a'')]))\<rparr>
   \<and> current_or_init demo_env ''arn-1'' w_retry
       = (Inr (demo_secret [(''TokenId'', JStr ''tok-a'')]),
          w_retry\<lparr>log := log w_retry @ [GetSecretValue ''arn-1'' None ''AWSCURRENT'']\<rparr>)
   \<and> get_secret_value demo_env ''arn-1'' None ''AWSCURRENT'' (ext w_bootstrap)
       = Inl ResourceNotFoundException
   \<and> current_or_init demo_env ''arn-1'' w_bootstrap
       = (Inr (demo_secret []),
          w_bootstrap\<lparr>log := log w_bootstrap @ [GetSecretValue ''arn-1'' None ''AWSCURRENT'',
             GetSecretValue ''arn-1'' None ''CFINIT'']\<rparr>)
   \<and> get_secret_value demo_env ''arn-1'' None ''AWSCURRENT'' (ext w_uninitialized)
       = Inl ResourceNotFoundException
   \<and> get_secret_value demo_env ''arn-1'' None ''CFINIT'' (ext w_uninitialized)
       = Inl ResourceNotFoundException
   \<and> create_secret demo_env ''arn-1'' ''v2'' w_uninitialized
       = (Inl ResourceNotFoundException,
          w_uninitialized\<lparr>log := log w_uninitialized @ [GetSecretValue ''arn-1'' None ''AWSCURRENT'',
             GetSecretValue ''arn-1'' None ''CFINIT'']\<rparr>)"
proof -
  have a: "get_secret_value demo_env ''arn-1'' None ''AWSCURRENT'' (ext w_retry)
     = Inr \<lparr>SecretString = Some (Json (demo_secret [(''TokenId'', JStr ''tok-a'')]))\<rparr>"
    by (simp add: demo_env_fields demo_get_secret_value_def demo_world_def demo_store_def w_retry_def)
  have b: "get_secret_value demo_env ''arn-1'' None ''AWSCURRENT'' (ext w_bootstrap)
       = Inl ResourceNotFoundException"
    "get_secret_value demo_env ''arn-1'' None ''CFINIT'' (ext w_bootstrap)
       = Inr \<lparr>SecretString = Some (Json (demo_secret []))\<rparr>"
    by (simp_all add: demo_env_fields demo_get_secret_value_def demo_world_def demo_store_def
        w_bootstrap_def)
  have c: "get_secret_value demo_env ''arn-1'' None ''AWSCURRENT'' (ext w_uninitialized)
       = Inl ResourceNotFoundException"
    "get_secret_value demo_env ''arn-1'' None ''CFINIT'' (ext w_uninitialized)
       = Inl ResourceNotFoundException"
    by (simp_all add: demo_env_fields demo_get_secret_value_def demo_world_def demo_store_def
        w_uninitialized_def)
  show ?thesis
    using a b c
      reference_record_fallback [of demo_env "''arn-1''" w_retry]
      reference_record_fallback [of demo_env "''arn-1''" w_bootstrap]
      reference_record_fallback [of demo_env "''arn-1''" w_uninitialized "''v2''"]
    by (simp add: get_secret_dict_apply)
qed

text \<open>
  The claim as stated, that a secret with neither version fails with a configuration error
  and not with a not-found error, does not hold.
\<close>

theorem uninitialized_secret_configuration_error_counterexample:
  "get_secret_value demo_env ''arn-1'' None ''AWSCURRENT'' (ext w_uninitialized)
       = Inl ResourceNotFoundException
   \<and> get_secret_value demo_env ''arn-1'' None ''CFINIT'' (ext w_uninitialized)
       = Inl ResourceNotFoundException
   \<and> fst (create_secret demo_env ''arn-1'' ''v2'' w_uninitialized) = Inl ResourceNotFoundException
   \<and> fst (create_secret demo_env ''arn-1'' ''v2'' w_uninitialized) \<noteq> Inl (ValueError InvalidSecretType)"
  by (simp add: create_secret_def bind_def current_or_init_def catch_apply get_secret_dict_apply
      demo_env_fields demo_get_secret_value_def demo_world_def demo_store_def w_uninitialized_def)

section \<open>An event for an unknown version\<close>

lemma describe_w_steady:
  "describe_secret demo_env ''arn-1'' (ext w_steady)
     = Inr \<lparr>RotationEnabled = Some True,
            VersionIdsToStages = Some [(''v1'', [''AWSCURRENT'']), (''v2'', [''AWSPENDING''])]\<rparr>"
  by (simp add: demo_defs w_steady_def)

text \<open>
  C8, as the code has it. For an event whose \<open>ClientRequestToken\<close> is not a key of the
  version-to-stages mapping of a secret enabled for rotation, \<open>lambda_handler\<close> raises
  \<open>ValueError\<close> ("has no stage for rotation"), the exception it also raises for a secret not
  enabled for rotation, and not the \<open>ResourceNotFoundException\<close> of the store. It has then
  only read the description of the secret: no phase handler has run.
\<close>

theorem unknown_version_raises_value_error:
  assumes event: "map_of event ''SecretId'' = Some arn"
      "map_of event ''ClientRequestToken'' = Some token" "map_of event ''Step'' = Some step"
    and describe: "describe_secret env arn (ext w) = Inr metadata"
    and enabled: "RotationEnabled metadata = Some True"
    and versions: "VersionIdsToStages metadata = Some versions"
    and unknown: "token \<notin> set (map fst versions)"
  shows "lambda_handler env event w
      = (Inl (ValueError NoStageForRotation), w\<lparr>log := log w @ [DescribeSecret arn]\<rparr>)"
proof -
  have "map_of versions token = None"
    using unknown by (simp add: map_of_eq_None_iff)
  then show ?thesis
    using event describe enabled versions
    by (simp add: lambda_handler_def event_get_def bind_query versions_of_def)
qed

theorem unknown_version_raises_value_error_witness:
  "''v9'' \<notin> set (map fst [(''v1'', [''AWSCURRENT'']), (''v2'', [''AWSPENDING''])])
   \<and> lambda_handler demo_env unknown_version_event w_steady
       = (Inl (ValueError NoStageForRotation), w_steady\<lparr>log := log w_steady @ [DescribeSecret ''arn-1'']\<rparr>)"
proof -
  let ?versions = "[(''v1'', [''AWSCURRENT'']), (''v2'', [''AWSPENDING''])]"
  let ?metadata = "\<lparr>RotationEnabled = Some True, VersionIdsToStages = Some ?versions\<rparr>"
  have event: "map_of unknown_version_event ''SecretId'' = Some ''arn-1''"
    "map_of unknown_version_event ''ClientRequestToken'' = Some ''v9''"
    "map_of unknown_version_event ''Step'' = Some ''createSecret''"
    by (simp_all add: unknown_version_event_def)
  have enabled: "RotationEnabled ?metadata = Some True" and versions: "VersionIdsToStages ?metadata = Some ?versions"
    by simp_all
  have unknown: "''v9'' \<notin> set (map fst ?versions)"
    by simp
  show ?thesis
    using unknown unknown_version_raises_value_error [OF event describe_w_steady enabled versions unknown]
    by simp
qed

text \<open>
  The claim as stated, that the failure is a not-found error, does not hold: for the
  version \<open>v9\<close> that the secret does not have, the handler ends in
  \<open>ValueError\<close>.
\<close>

theorem unknown_version_not_found_counterexample:
  "map_of [(''v1'', [''AWSCURRENT'']), (''v2'', [''AWSPENDING''])] ''v9'' = None
   \<and> describe_secret demo_env ''arn-1'' (ext w_steady)
     = Inr \<lparr>RotationEnabled = Some True,
            VersionIdsToStages = Some [(''v1'', [''AWSCURRENT'']), (''v2'', [''AWSPENDING''])]\<rparr>
   \<and> fst (lambda_handler demo_env unknown_version_event w_steady) \<noteq> Inl ResourceNotFoundException
   \<and> fst (lambda_handler demo_env unknown_version_event w_steady) = Inl (ValueError NoStageForRotation)"
  by (simp add: describe_w_steady lambda_handler_def event_get_def bind_query versions_of_def
      unknown_version_event_def)

section \<open>The validity window of a cloned or renewed token\<close>



section \<open>Tokens without an expiry\<close>

text \<open>
  C10. Clone and renew need \<open>expires_on\<close>. The two dates that the new expiry is computed
  from are bound only when the source token has \<open>expires_on\<close>. For a source token
  without it, \<open>clone_api_token\<close> and \<open>renew_api_token\<close> end in an error after the
  one read of the token: nothing is posted or put, so no token without an expiry is made.
  For \<open>renew_api_token\<close> the error is the unbound \<open>expires_date\<close>.
\<close>

theorem clone_renew_need_expires_on:
  assumes get: "tokens_get env token_id (ext w) = Inr (JObj tok)"
    and none: "''expires_on'' \<notin> set (map fst tok)"
  shows "(\<exists>e. clone_api_token env token_id w = (Inl e, w\<lparr>log := log w @ [TokensGet token_id]\<rparr>))
       \<and> renew_api_token env token_id w
           = (Inl (UnboundLocalError ''expires_date''), w\<lparr>log := log w @ [TokensGet token_id]\<rparr>)"
proof
  show "\<exists>e. clone_api_token env token_id w = (Inl e, w\<lparr>log := log w @ [TokensGet token_id]\<rparr>)"
    using get validity_window_unbound [OF none, of env]
    by (simp add: clone_api_token_def bind_query bind_lift split: sum.splits)
next
  have "''expires_on'' \<notin> set (map fst (AList.update ''status'' (JStr ''active'')
          (AList.update ''not_before'' (date_fmt env (utcnow env (ext w))) tok)))"
    using none by (simp add: dom_update)
  then show "renew_api_token env token_id w
      = (Inl (UnboundLocalError ''expires_date''), w\<lparr>log := log w @ [TokensGet token_id]\<rparr>)"
    using get by (simp add: renew_api_token_def bind_query validity_window_unbound)
qed

theorem clone_renew_need_expires_on_witness:
  "(\<exists>tok. tokens_get demo_env (JStr ''tok-a'') (ext w_no_expiry) = Inr (JObj tok)
      \<and> ''expires_on'' \<notin> set (map fst tok))
   \<and> (\<exists>e. clone_api_token demo_env (JStr ''tok-a'') w_no_expiry
         = (Inl e, w_no_expiry\<lparr>log := log w_no_expiry @ [TokensGet (JStr ''tok-a'')]\<rparr>))
   \<and> renew_api_token demo_env (JStr ''tok-a'') w_no_expiry
       = (Inl (UnboundLocalError ''expires_date''),
          w_no_expiry\<lparr>log := log w_no_expiry @ [TokensGet (JStr ''tok-a'')]\<rparr>)"
proof -
  let ?tok = "[(''id'', JStr ''tok-a''), (''name'', JStr ''ci''), (''status'', JStr ''active''),
          (''issued_on'', JStr ''2020-01-01T00:00:00Z''),
          (''policies'', JArr [JObj [(''id'', JStr ''p1''), (''effect'', JStr ''allow'')]])]"
  have get: "tokens_get demo_env (JStr ''tok-a'') (ext w_no_expiry) = Inr (JObj ?tok)"
    by (simp add: demo_defs w_no_expiry_def)
  have none: "''expires_on'' \<notin> set (map fst ?tok)"
    by simp
  show ?thesis
    using get none clone_renew_need_expires_on [OF get none]
    by blast
qed

end
